theory Spec2Isabelle
  imports Complex_Main
begin

section \<open>The virtual list of vueuc (src/virtual-list/src/VirtualList.ts)\<close>

text \<open>
  A shallow embedding of the component's \<^verbatim>\<open>setup\<close> closures, its methods and the part of
  \<^verbatim>\<open>render\<close> that chooses between the items block and the empty slot.

  Conventions of the embedding:
  \<^item> a JavaScript \<^verbatim>\<open>number\<close> is a \<^typ>\<open>real\<close>: exact arithmetic, no rounding, no NaN and
    no infinities. \<^verbatim>\<open>Math.floor\<close> and \<^verbatim>\<open>Math.ceil\<close> are the floor and the ceiling of
    the reals, whose values are integers (\<^typ>\<open>int\<close>). Where the source's doubles round a
    quotient across an integer, the index it computes differs from the model's by one;
    the theorems on the geometry are identities of expressions, bounds by the two
    clamps and facts of the loop, which hold however the arithmetic rounds, and none of
    them locates the scroll offset at which an index changes;
  \<^item> a quotient by zero is 0 in HOL and an infinity or NaN in JavaScript: the model is
    the source's for an item size other than zero (the prop is required, and the
    geometry is stated for a positive one);
  \<^item> a value that may be \<^verbatim>\<open>undefined\<close> is an \<^typ>\<open>'a option\<close>, \<^term>\<open>None\<close> being
    \<^verbatim>\<open>undefined\<close>;
  \<^item> the casts \<^verbatim>\<open>listRef.value as HTMLDivElement\<close> are taken at their word: the list
    element is mounted whenever a closure reads it;
  \<^item> a ref or a mutable field is a field of a state record that is passed in and
    returned updated.
\<close>

subsection \<open>Props\<close>

text \<open>The items carry a key; whatever else they carry is the record's extension.\<close>

record 'k ItemData =
  key :: 'k

text \<open>
  A caller-supplied observer (\<^verbatim>\<open>onScroll\<close>, \<^verbatim>\<open>onResize\<close>) is known by a label only;
  what it is called with, and the component state at that moment, is recorded in a trace.
\<close>

datatype observer = Observer string

record ('k, 'm) props =
  showScrollbar :: bool
  items :: "('k, 'm) ItemData_scheme list"
  itemSize :: real
  onScroll :: "observer option"
  onResize :: "observer option"
  defaultScrollKey :: "'k option"
  defaultScrollIndex :: "real option"
  paddingTop :: real
  paddingBottom :: real

text \<open>
  The props of a list that is given its items and the required \<^verbatim>\<open>itemSize\<close> only:
  every other prop has the default of the \<^verbatim>\<open>props\<close> declaration.
\<close>

definition default_props :: "('k, 'm) ItemData_scheme list \<Rightarrow> real \<Rightarrow> ('k, 'm) props" where
  "default_props xs sz =
     \<lparr>showScrollbar = True, items = xs, itemSize = sz, onScroll = None, onResize = None,
      defaultScrollKey = None, defaultScrollIndex = None, paddingTop = 0, paddingBottom = 0\<rparr>"

subsection \<open>Geometry: start index, end index, viewport items\<close>

text \<open>
  \<^verbatim>\<open>preparedRef\<close>, \<^verbatim>\<open>startIndexRef\<close> and \<^verbatim>\<open>viewportItemsRef\<close> are computed from
  \<^verbatim>\<open>listHeightRef\<close> (the argument \<open>lh\<close>, \<^term>\<open>None\<close> before the first resize report)
  and \<^verbatim>\<open>scrollTopRef\<close> (the argument \<open>st\<close>).
\<close>

definition prepared :: "real option \<Rightarrow> bool" where
  "prepared lh = (lh \<noteq> None)"

definition startIndex :: "('k, 'm) props \<Rightarrow> real \<Rightarrow> int" where
  "startIndex p st =
     max (\<lfloor>(st - paddingTop p) / itemSize p\<rfloor> - 1) 0"

text \<open>The constant \<^verbatim>\<open>endIndex\<close> of \<^verbatim>\<open>viewportItemsRef\<close>, for a known list height.\<close>

definition endIndex :: "('k, 'm) props \<Rightarrow> real \<Rightarrow> real \<Rightarrow> int" where
  "endIndex p h st =
     min (startIndex p st
            + \<lceil>min h (itemSize p * real (length (items p)) + paddingTop p - st)
                 / itemSize p\<rceil>
            + 1)
         (int (length (items p)) - 1)"

text \<open>
  \<^verbatim>\<open>items[i]\<close>: a JavaScript array read outside \<open>0 .. length - 1\<close> yields
  \<^verbatim>\<open>undefined\<close>.
\<close>

definition item_at :: "'a list \<Rightarrow> int \<Rightarrow> 'a option" where
  "item_at xs i = (if 0 \<le> i \<and> i < int (length xs) then Some (xs ! nat i) else None)"

text \<open>
  The loop \<^verbatim>\<open>for (let i = startIndex; i <= endIndex; ++i) viewportItems.push(items[i])\<close>.
  \<open>loop_indices\<close> is the same loop recording the values \<open>i\<close> takes.
\<close>

function push_items :: "'a list \<Rightarrow> int \<Rightarrow> int \<Rightarrow> 'a option list \<Rightarrow> 'a option list" where
  "push_items xs i e acc =
     (if i \<le> e then push_items xs (i + 1) e (acc @ [item_at xs i]) else acc)"
  by pat_completeness auto
termination
  by (relation "measure (\<lambda>(xs, i, e, acc). nat (e + 1 - i))") auto

declare push_items.simps [simp del]

function loop_indices :: "int \<Rightarrow> int \<Rightarrow> int list \<Rightarrow> int list" where
  "loop_indices i e visited =
     (if i \<le> e then loop_indices (i + 1) e (visited @ [i]) else visited)"
  by pat_completeness auto
termination
  by (relation "measure (\<lambda>(i, e, acc). nat (e + 1 - i))") auto

declare loop_indices.simps [simp del]

definition viewportItems ::
  "('k, 'm) props \<Rightarrow> real option \<Rightarrow> real \<Rightarrow> ('k, 'm) ItemData_scheme option list" where
  "viewportItems p lh st =
     (if \<not> prepared lh then []
      else case lh of
        None \<Rightarrow> []
      | Some h \<Rightarrow> push_items (items p) (startIndex p st) (endIndex p h st) [])"

text \<open>The values of the loop variable while \<open>viewportItems\<close> is built.\<close>

definition viewportIndices :: "('k, 'm) props \<Rightarrow> real option \<Rightarrow> real \<Rightarrow> int list" where
  "viewportIndices p lh st =
     (if \<not> prepared lh then []
      else case lh of
        None \<Rightarrow> []
      | Some h \<Rightarrow> loop_indices (startIndex p st) (endIndex p h st) [])"

subsection \<open>Styles and the rendered child\<close>

text \<open>
  \<^verbatim>\<open>itemsStyle\<close> and \<^verbatim>\<open>visibleItemsStyle\<close>, with the numbers that the source formats
  into the CSS strings: the pixel height and paddings, and the vertical component of
  \<^verbatim>\<open>translate3d(0, ...px, 0)\<close>.
\<close>

record items_style =
  style_height :: real
  style_paddingTop :: real
  style_paddingBottom :: real

record visible_items_style =
  translateY :: real

definition itemsStyle :: "('k, 'm) props \<Rightarrow> items_style" where
  "itemsStyle p =
     \<lparr>style_height = itemSize p * real (length (items p)),
      style_paddingTop = paddingTop p,
      style_paddingBottom = paddingBottom p\<rparr>"

definition visibleItemsStyle :: "('k, 'm) props \<Rightarrow> real \<Rightarrow> visible_items_style" where
  "visibleItemsStyle p st = \<lparr>translateY = of_int (startIndex p st) * itemSize p\<rparr>"

text \<open>
  The child of the list element in \<^verbatim>\<open>render\<close>: the items block, holding for each
  viewport item the pair handed to the default slot, or the result of the \<^verbatim>\<open>empty\<close>
  slot (\<^term>\<open>None\<close> when the caller gave no such slot).
\<close>

datatype ('i, 's) vnode =
  ItemsBlock items_style visible_items_style "('i \<times> nat) list"
| EmptySlot "'s option"

definition renderList :: "'a list \<Rightarrow> ('a \<times> nat) list" where
  "renderList xs = zip xs [0 ..< length xs]"

definition render ::
  "('k, 'm) props \<Rightarrow> 's option \<Rightarrow> real option \<Rightarrow> real
     \<Rightarrow> (('k, 'm) ItemData_scheme option, 's) vnode" where
  "render p slots_empty lh st =
     (if length (items p) \<noteq> 0
      then ItemsBlock (itemsStyle p) (visibleItemsStyle p st)
             (renderList (viewportItems p lh st))
      else EmptySlot slots_empty)"

subsection \<open>The list element and the scroll controller\<close>

text \<open>
  The list element is the host's. The closures read its \<^verbatim>\<open>scrollTop\<close> and
  \<^verbatim>\<open>offsetHeight\<close> and call its \<^verbatim>\<open>scrollTo\<close>; what the host then does (clamping,
  animation, the scroll event that follows) is outside the repository, so the model
  records each call with its argument.
\<close>

datatype ScrollBehavior = Auto | Smooth

record ScrollToOptions =
  to_left :: "real option"
  to_top :: "real option"
  to_behavior :: "ScrollBehavior option"

record element =
  el_scrollTop :: real
  offsetHeight :: real
  scrollToCalls :: "ScrollToOptions list"

definition el_scrollTo :: "ScrollToOptions \<Rightarrow> element \<Rightarrow> element" where
  "el_scrollTo opts el = el\<lparr>scrollToCalls := scrollToCalls el @ [opts]\<rparr>"

text \<open>The fields that \<^verbatim>\<open>scrollTo\<close> takes out of its \<^verbatim>\<open>VScrollToOptions\<close> argument.\<close>

record 'k VScrollToOptions =
  o_left :: "real option"
  o_top :: "real option"
  o_index :: "real option"
  o_key :: "'k option"
  o_position :: "string option"
  o_behavior :: "ScrollBehavior option"
  o_debounce :: "bool option"

text \<open>
  \<^verbatim>\<open>keyIndexMapRef\<close>: \<^verbatim>\<open>forEach\<close> visits the items in order, each with its index
  (\<open>enumerate 0\<close> pairs them), and a later \<^verbatim>\<open>map.set\<close> of the same key replaces the
  earlier one.
\<close>

definition keyIndexMap :: "('k, 'm) props \<Rightarrow> 'k \<rightharpoonup> nat" where
  "keyIndexMap p =
     fold (\<lambda>(index, item) m. m(key item \<mapsto> index)) (enumerate 0 (items p)) Map.empty"

definition MAX_SAFE_INTEGER :: real where
  "MAX_SAFE_INTEGER = 9007199254740991"

definition scrollToPosition ::
  "real option \<Rightarrow> real option \<Rightarrow> ScrollBehavior option \<Rightarrow> element \<Rightarrow> element" where
  "scrollToPosition left top' behavior el =
     el_scrollTo \<lparr>to_left = left, to_top = top', to_behavior = behavior\<rparr> el"

definition scrollToIndex ::
  "('k, 'm) props \<Rightarrow> real \<Rightarrow> ScrollBehavior option \<Rightarrow> bool \<Rightarrow> element \<Rightarrow> element" where
  "scrollToIndex p index behavior debounce el =
     (let targetTop = index * itemSize p + paddingTop p in
      if \<not> debounce then
        el_scrollTo \<lparr>to_left = Some 0, to_top = Some targetTop, to_behavior = behavior\<rparr> el
      else if targetTop > el_scrollTop el then
        (if targetTop + itemSize p \<le> el_scrollTop el + offsetHeight el then el
         else el_scrollTo
                \<lparr>to_left = Some 0,
                 to_top = Some (targetTop + itemSize p - offsetHeight el),
                 to_behavior = behavior\<rparr> el)
      else
        el_scrollTo \<lparr>to_left = Some 0, to_top = Some targetTop, to_behavior = behavior\<rparr> el)"

definition scrollTo :: "('k, 'm) props \<Rightarrow> 'k VScrollToOptions \<Rightarrow> element \<Rightarrow> element" where
  "scrollTo p options el =
     (let debounce = (case o_debounce options of None \<Rightarrow> True | Some d \<Rightarrow> d);
          behavior = o_behavior options in
      if o_left options \<noteq> None \<or> o_top options \<noteq> None then
        scrollToPosition (o_left options) (o_top options) behavior el
      else case o_index options of
        Some index \<Rightarrow> scrollToIndex p index behavior debounce el
      | None \<Rightarrow>
         (case o_key options of
            Some k \<Rightarrow>
              (case keyIndexMap p k of
                 Some toIndex \<Rightarrow> scrollToIndex p (real toIndex) behavior debounce el
               | None \<Rightarrow> el)
          | None \<Rightarrow>
              if o_position options = Some ''bottom'' then
                scrollToPosition (Some 0) (Some MAX_SAFE_INTEGER) behavior el
              else if o_position options = Some ''top'' then
                scrollToPosition (Some 0) (Some 0) behavior el
              else el))"

text \<open>An options object with no field set, and the \<^verbatim>\<open>onMounted\<close> hook.\<close>

definition no_options :: "'k VScrollToOptions" where
  "no_options =
     \<lparr>o_left = None, o_top = None, o_index = None, o_key = None, o_position = None,
      o_behavior = None, o_debounce = None\<rparr>"

definition onMounted :: "('k, 'm) props \<Rightarrow> element \<Rightarrow> element" where
  "onMounted p el =
     (case defaultScrollIndex p of
        Some i \<Rightarrow> scrollTo p (no_options\<lparr>o_index := Some i\<rparr>) el
      | None \<Rightarrow>
         (case defaultScrollKey p of
            Some k \<Rightarrow> scrollTo p (no_options\<lparr>o_key := Some k\<rparr>) el
          | None \<Rightarrow> el))"

subsection \<open>The component instance and its event handlers\<close>

text \<open>
  What an observer can see of the instance when it is called: the instance's own
  fields and the scroll offset of the list element.
\<close>

record view =
  v_listHeight :: "real option"
  v_scrollTop :: real
  v_rafFlag :: bool
  v_el_scrollTop :: real

text \<open>
  A call of an observer: \<^verbatim>\<open>onScroll(e)\<close>, the event given by the offset the list
  element was scrolled to, or \<^verbatim>\<open>onResize(entry)\<close>, the entry given by its
  \<^verbatim>\<open>contentRect.height\<close>; each with the view at the moment of the call.
\<close>

datatype call = OnScroll observer real view | OnResize observer real view

text \<open>The functions handed to \<^verbatim>\<open>nextFrame\<close>: the source hands over one only.\<close>

datatype callback = SyncViewport

record component =
  listHeight :: "real option"
  scrollTop :: real
  rafFlag :: bool
  listRef :: element
  pendingFrames :: "callback list"
  observed :: "call list"

definition view_of :: "component \<Rightarrow> view" where
  "view_of s =
     \<lparr>v_listHeight = listHeight s, v_scrollTop = scrollTop s, v_rafFlag = rafFlag s,
      v_el_scrollTop = el_scrollTop (listRef s)\<rparr>"

text \<open>
  Modelled from the spec: \<^verbatim>\<open>nextFrame\<close> is imported from \<^verbatim>\<open>../../shared\<close>, which is
  not among the sources. The spec calls it the host's next-frame primitive, which
  queues a deferred callback for the next display refresh: the callback joins the
  pending ones and runs once, at the next frame.
\<close>

definition nextFrame :: "callback \<Rightarrow> component \<Rightarrow> component" where
  "nextFrame cb s = s\<lparr>pendingFrames := pendingFrames s @ [cb]\<rparr>"

definition notify :: "call \<Rightarrow> component \<Rightarrow> component" where
  "notify c s = s\<lparr>observed := observed s @ [c]\<rparr>"

definition handleListScroll :: "('k, 'm) props \<Rightarrow> real \<Rightarrow> component \<Rightarrow> component" where
  "handleListScroll p e s =
     (let s1 = (if \<not> rafFlag s then (nextFrame SyncViewport s)\<lparr>rafFlag := True\<rparr> else s)
      in case onScroll p of
           None \<Rightarrow> s1
         | Some ob \<Rightarrow> notify (OnScroll ob e (view_of s1)) s1)"

definition handleListResize :: "('k, 'm) props \<Rightarrow> real \<Rightarrow> component \<Rightarrow> component" where
  "handleListResize p entry s =
     (let s1 = s\<lparr>listHeight := Some entry\<rparr>
      in case onResize p of
           None \<Rightarrow> s1
         | Some ob \<Rightarrow> notify (OnResize ob entry (view_of s1)) s1)"

definition syncViewport :: "component \<Rightarrow> component" where
  "syncViewport s = s\<lparr>scrollTop := el_scrollTop (listRef s), rafFlag := False\<rparr>"

text \<open>The instance that \<^verbatim>\<open>setup\<close> returns, around a mounted list element.\<close>

definition setup_component :: "element \<Rightarrow> component" where
  "setup_component el =
     \<lparr>listHeight = None, scrollTop = 0, rafFlag = False, listRef = el,
      pendingFrames = [], observed = []\<rparr>"

subsection \<open>The host's event loop\<close>

text \<open>
  The host drives the instance: it scrolls the list element to an offset and fires the
  scroll event, it reports a height through the resize observer, it reaches the next
  frame and runs the callbacks queued for it, or the caller calls \<^verbatim>\<open>scrollTo\<close>.
\<close>

datatype 'k event =
  Scroll real
| Resize real
| Frame
| CallScrollTo "'k VScrollToOptions"

fun run_callback :: "callback \<Rightarrow> component \<Rightarrow> component" where
  "run_callback SyncViewport s = syncViewport s"

definition run_frame :: "component \<Rightarrow> component" where
  "run_frame s = fold run_callback (pendingFrames s) (s\<lparr>pendingFrames := []\<rparr>)"

fun step :: "('k, 'm) props \<Rightarrow> 'k event \<Rightarrow> component \<Rightarrow> component" where
  "step p (Scroll t) s = handleListScroll p t (s\<lparr>listRef := (listRef s)\<lparr>el_scrollTop := t\<rparr>\<rparr>)"
| "step p (Resize h) s = handleListResize p h s"
| "step p Frame s = run_frame s"
| "step p (CallScrollTo options) s = s\<lparr>listRef := scrollTo p options (listRef s)\<rparr>"

definition run :: "('k, 'm) props \<Rightarrow> 'k event list \<Rightarrow> component \<Rightarrow> component" where
  "run p evs s = fold (step p) evs s"

text \<open>
  The guard of the frame coalescing: a \<^verbatim>\<open>syncViewport\<close> is pending when \<^verbatim>\<open>rafFlag\<close> is
  set, and nothing is pending when it is not.
\<close>

definition frame_guard :: "component \<Rightarrow> bool" where
  "frame_guard s = (pendingFrames s = (if rafFlag s then [SyncViewport] else []))"

subsection \<open>The geometry as the specification words it\<close>

text \<open>
  The formulas of the specification's geometry model, over its own parameters, to be
  compared with \<open>startIndex\<close> and \<open>endIndex\<close> above.
\<close>

definition spec_startIndex :: "real \<Rightarrow> real \<Rightarrow> real \<Rightarrow> int" where
  "spec_startIndex scrollOffset padTop sz =
     max (\<lfloor>(scrollOffset - padTop) / sz\<rfloor> - 1) 0"

definition spec_visibleCount :: "real \<Rightarrow> real \<Rightarrow> nat \<Rightarrow> real \<Rightarrow> real \<Rightarrow> int" where
  "spec_visibleCount viewportHeight sz itemCount padTop scrollOffset =
     (let remainingSpan = min viewportHeight (sz * real itemCount + padTop - scrollOffset)
      in \<lceil>remainingSpan / sz\<rceil> + 1)"

definition spec_endIndex :: "int \<Rightarrow> int \<Rightarrow> nat \<Rightarrow> int" where
  "spec_endIndex start visibleCount itemCount =
     min (start + visibleCount) (int itemCount - 1)"

definition spec_translation :: "int \<Rightarrow> real \<Rightarrow> real" where
  "spec_translation start sz = of_int start * sz"

text \<open>
  The precedence among the options of a \<^verbatim>\<open>scrollTo\<close> call as the specification words
  it: of pixel position (\<^verbatim>\<open>left\<close>/\<^verbatim>\<open>top\<close>), index, key and named edge position,
  the first one supplied is kept and the others are dropped; \<^verbatim>\<open>behavior\<close> and
  \<^verbatim>\<open>debounce\<close> are not navigation options and stay.
\<close>

definition spec_honoured :: "'k VScrollToOptions \<Rightarrow> 'k VScrollToOptions" where
  "spec_honoured options =
     (let base = no_options\<lparr>o_behavior := o_behavior options, o_debounce := o_debounce options\<rparr>
      in if o_left options \<noteq> None \<or> o_top options \<noteq> None then
           base\<lparr>o_left := o_left options, o_top := o_top options\<rparr>
         else if o_index options \<noteq> None then base\<lparr>o_index := o_index options\<rparr>
         else if o_key options \<noteq> None then base\<lparr>o_key := o_key options\<rparr>
         else base\<lparr>o_position := o_position options\<rparr>)"

section \<open>The visible window\<close>

subsection \<open>The loop visits the integers from the start index to the end index\<close>

lemma loop_indices_upto: "loop_indices i e acc = acc @ [i..e]"
proof (induction i e acc rule: loop_indices.induct)
  case (1 i e visited)
  show ?case
  proof (cases "i \<le> e")
    case True
    then have "loop_indices i e visited = loop_indices (i + 1) e (visited @ [i])"
      by (subst loop_indices.simps) simp
    also have "\<dots> = (visited @ [i]) @ [i + 1..e]" using 1 True by simp
    also have "\<dots> = visited @ [i..e]" using True by (simp add: upto_rec1)
    finally show ?thesis .
  next
    case False
    then show ?thesis by (subst loop_indices.simps) simp
  qed
qed

lemma push_items_upto: "push_items xs i e acc = acc @ map (item_at xs) [i..e]"
proof (induction xs i e acc rule: push_items.induct)
  case (1 xs i e acc)
  show ?case
  proof (cases "i \<le> e")
    case True
    then have "push_items xs i e acc = push_items xs (i + 1) e (acc @ [item_at xs i])"
      by (subst push_items.simps) simp
    also have "\<dots> = (acc @ [item_at xs i]) @ map (item_at xs) [i + 1..e]"
      using 1 True by simp
    also have "\<dots> = acc @ map (item_at xs) [i..e]" using True by (simp add: upto_rec1)
    finally show ?thesis .
  next
    case False
    then show ?thesis by (subst push_items.simps) simp
  qed
qed

lemma startIndex_nonneg: "0 \<le> startIndex p st"
  by (simp add: startIndex_def)

lemma endIndex_le_last: "endIndex p h st \<le> int (length (items p)) - 1"
  by (simp add: endIndex_def)

lemma viewportItems_map:
  "viewportItems p lh st = map (item_at (items p)) (viewportIndices p lh st)"
  by (simp add: viewportItems_def viewportIndices_def push_items_upto loop_indices_upto
      split: option.split)

lemma viewportIndices_prepared:
  "viewportIndices p (Some h) st = [startIndex p st .. endIndex p h st]"
  by (simp add: viewportIndices_def prepared_def loop_indices_upto)

lemma viewportIndices_range:
  assumes "i \<in> set (viewportIndices p lh st)"
  shows "0 \<le> i \<and> i \<le> int (length (items p)) - 1"
proof (cases lh)
  case None
  with assms show ?thesis by (simp add: viewportIndices_def prepared_def)
next
  case (Some h)
  with assms have "startIndex p st \<le> i" "i \<le> endIndex p h st"
    by (simp_all add: viewportIndices_prepared)
  then show ?thesis
    using startIndex_nonneg [of p st] endIndex_le_last [of p h st] by linarith
qed





subsection \<open>Every index read lies inside the items\<close>

text \<open>
  Claim C3. For a list with items, a positive item size, a non-negative top padding and a
  non-negative scroll offset, whatever the viewport height and whether or not it is
  known: every value the loop variable takes while the viewport items are built lies in
  \<open>0 .. itemCount - 1\<close>, so every read \<^verbatim>\<open>items[i]\<close> yields an item of the list and
  none yields \<^verbatim>\<open>undefined\<close>.
\<close>

theorem indices_in_range:
  assumes "0 < length (items p)" and "0 < itemSize p" and "0 \<le> paddingTop p" and "0 \<le> st"
  shows "viewportItems p lh st = map (item_at (items p)) (viewportIndices p lh st)
       \<and> (\<forall>i \<in> set (viewportIndices p lh st). 0 \<le> i \<and> i \<le> int (length (items p)) - 1)
       \<and> viewportItems p lh st = map (\<lambda>i. Some (items p ! nat i)) (viewportIndices p lh st)"
proof -
  have range: "\<forall>i \<in> set (viewportIndices p lh st). 0 \<le> i \<and> i \<le> int (length (items p)) - 1"
    using viewportIndices_range by blast
  have "map (item_at (items p)) (viewportIndices p lh st)
      = map (\<lambda>i. Some (items p ! nat i)) (viewportIndices p lh st)"
  proof (rule map_cong [OF refl])
    fix i assume "i \<in> set (viewportIndices p lh st)"
    with range have "0 \<le> i \<and> i < int (length (items p))" by fastforce
    then show "item_at (items p) i = Some (items p ! nat i)" by (simp add: item_at_def)
  qed
  with range show ?thesis by (simp add: viewportItems_map)
qed

text \<open>The same at three items of size 10, height 20, offset 25: items 1 and 2 are read.\<close>

theorem indices_in_range_witness:
  "viewportIndices (default_props [\<lparr>key = 1::nat\<rparr>, \<lparr>key = 2\<rparr>, \<lparr>key = 3\<rparr>] 10) (Some 20) 25 = [1, 2]
   \<and> viewportItems (default_props [\<lparr>key = 1::nat\<rparr>, \<lparr>key = 2\<rparr>, \<lparr>key = 3\<rparr>] 10) (Some 20) 25
       = [Some \<lparr>key = 2\<rparr>, Some \<lparr>key = 3\<rparr>]"
  using indices_in_range [of "default_props [\<lparr>key = 1::nat\<rparr>, \<lparr>key = 2\<rparr>, \<lparr>key = 3\<rparr>] 10" 25 "Some 20"]
  by (simp add: viewportIndices_prepared startIndex_def endIndex_def default_props_def upto_rec1
      item_at_def)

subsection \<open>The formulas of the start index and of the end index\<close>

text \<open>
  Claim C4. With the viewport height \<open>h\<close> known and a positive item size, the end index is
  \<open>min (startIndex + ceil (min h (itemSize * itemCount + paddingTop - scrollOffset) / itemSize) + 1)
  (itemCount - 1)\<close>, which is the specification's \<open>endIndex\<close> over its \<open>visibleCount\<close>,
  and the loop visits the indices from the start index to it. For \<open>itemSize = 30\<close>,
  \<open>paddingTop = 0\<close>, \<open>viewportHeight = 100\<close>, \<open>itemCount = 1000\<close> and
  \<open>scrollOffset = 305\<close> the start index is 9 and the end index is 14.
\<close>

theorem endIndex_formula:
  assumes "0 < itemSize p"
  shows "endIndex p h st
     = spec_endIndex (startIndex p st)
         (spec_visibleCount h (itemSize p) (length (items p)) (paddingTop p) st)
         (length (items p))
   \<and> endIndex p h st
     = min (startIndex p st
             + \<lceil>min h (itemSize p * real (length (items p)) + paddingTop p - st) / itemSize p\<rceil>
             + 1)
           (int (length (items p)) - 1)
   \<and> viewportIndices p (Some h) st = [startIndex p st .. endIndex p h st]
   \<and> startIndex (default_props (replicate 1000 \<lparr>key = 0::nat\<rparr>) 30) 305 = 9
   \<and> endIndex (default_props (replicate 1000 \<lparr>key = 0::nat\<rparr>) 30) 100 305 = 14"
proof (intro conjI)
  show "endIndex p h st
     = spec_endIndex (startIndex p st)
         (spec_visibleCount h (itemSize p) (length (items p)) (paddingTop p) st)
         (length (items p))"
    by (simp add: endIndex_def spec_endIndex_def spec_visibleCount_def)
  show "endIndex p h st
     = min (startIndex p st
             + \<lceil>min h (itemSize p * real (length (items p)) + paddingTop p - st) / itemSize p\<rceil>
             + 1)
           (int (length (items p)) - 1)"
    by (simp add: endIndex_def)
  show "viewportIndices p (Some h) st = [startIndex p st .. endIndex p h st]"
    by (rule viewportIndices_prepared)
  show "startIndex (default_props (replicate 1000 \<lparr>key = 0::nat\<rparr>) 30) 305 = 9"
    by (simp add: startIndex_def default_props_def)
  show "endIndex (default_props (replicate 1000 \<lparr>key = 0::nat\<rparr>) 30) 100 305 = 14"
    by (simp add: endIndex_def startIndex_def default_props_def)
qed

text \<open>The scenario once more, with the indices the loop visits.\<close>

theorem endIndex_formula_witness:
  "viewportIndices (default_props (replicate 1000 \<lparr>key = 0::nat\<rparr>) 30) (Some 100) 305
     = [9, 10, 11, 12, 13, 14]"
proof -
  let ?p = "default_props (replicate 1000 \<lparr>key = 0::nat\<rparr>) 30"
  have "0 < itemSize ?p" by (simp add: default_props_def)
  note scenario = endIndex_formula [OF this, where h = 100 and st = 305]
  from scenario have "viewportIndices ?p (Some 100) 305 = [startIndex ?p 305 .. endIndex ?p 100 305]"
    by blast
  moreover from scenario have "startIndex ?p 305 = 9" and "endIndex ?p 100 305 = 14"
    by blast+
  ultimately show ?thesis by (simp add: upto_rec1)
qed

text \<open>
  Claim C5. For a non-negative scroll offset, a non-negative top padding and a positive
  item size, the start index is \<open>max (floor ((scrollOffset - paddingTop) / itemSize) - 1) 0\<close>,
  and the vertical translation of the block of visible items is the start index times
  the item size.
\<close>

theorem startIndex_formula:
  assumes "0 \<le> st" and "0 \<le> paddingTop p" and "0 < itemSize p"
  shows "startIndex p st = spec_startIndex st (paddingTop p) (itemSize p)
   \<and> startIndex p st = max (\<lfloor>(st - paddingTop p) / itemSize p\<rfloor> - 1) 0
   \<and> translateY (visibleItemsStyle p st) = spec_translation (startIndex p st) (itemSize p)
   \<and> translateY (visibleItemsStyle p st) = of_int (startIndex p st) * itemSize p"
  by (simp add: startIndex_def spec_startIndex_def visibleItemsStyle_def spec_translation_def)

text \<open>At item size 30 and offset 305: start index 9, translation 270.\<close>

theorem startIndex_formula_witness:
  "startIndex (default_props (replicate 1000 \<lparr>key = 0::nat\<rparr>) 30) 305 = 9
   \<and> translateY (visibleItemsStyle (default_props (replicate 1000 \<lparr>key = 0::nat\<rparr>) 30) 305) = 270"
  using startIndex_formula [where p = "default_props (replicate 1000 \<lparr>key = 0::nat\<rparr>) 30"
      and st = 305]
  by (simp add: spec_startIndex_def spec_translation_def default_props_def)

subsection \<open>No items, or no height yet\<close>

text \<open>
  Claim C8. If the list has no items, the viewport items are empty and \<^verbatim>\<open>render\<close> puts
  the result of the \<^verbatim>\<open>empty\<close> slot in the place of the items block. If no height has
  been reported yet (\<^verbatim>\<open>listHeight\<close> is \<^verbatim>\<open>undefined\<close>), the viewport items are empty
  whatever the other parameters are.
\<close>

theorem empty_window:
  "(length (items p) = 0 \<longrightarrow>
      viewportItems p lh st = [] \<and> render p slots_empty lh st = EmptySlot slots_empty)
   \<and> viewportItems p None st = []"
proof (intro conjI impI)
  assume n: "length (items p) = 0"
  show "viewportItems p lh st = []"
  proof (cases lh)
    case None
    then show ?thesis by (simp add: viewportItems_def prepared_def)
  next
    case (Some h)
    have "endIndex p h st < startIndex p st"
      using n endIndex_le_last [of p h st] startIndex_nonneg [of p st] by simp
    then show ?thesis using Some by (simp add: viewportItems_map viewportIndices_prepared)
  qed
  show "render p slots_empty lh st = EmptySlot slots_empty"
    using n by (simp add: render_def)
next
  show "viewportItems p None st = []" by (simp add: viewportItems_def prepared_def)
qed

text \<open>The same at a list without items with a known height, and at a list of one item with none.\<close>

theorem empty_window_witness:
  "viewportItems (default_props ([] :: nat ItemData list) 10) (Some 100) 0 = []
   \<and> render (default_props ([] :: nat ItemData list) 10) (Some ''No data'') (Some 100) 0
       = EmptySlot (Some ''No data'')
   \<and> viewportItems (default_props [\<lparr>key = 1::nat\<rparr>] 10) None 0 = []"
  using empty_window [of "default_props ([] :: nat ItemData list) 10" "Some 100" 0 "Some ''No data''"]
    empty_window [of "default_props [\<lparr>key = 1::nat\<rparr>] 10" None 0 None]
  by (simp add: default_props_def)

section \<open>The scroll controller\<close>

subsection \<open>The key index\<close>

lemma fold_key_index_dom:
  "dom (fold (\<lambda>(index, item) m. m(key item \<mapsto> index)) (enumerate n xs) m0)
     = dom m0 \<union> key ` set xs"
proof (induction xs arbitrary: n m0)
  case Nil
  then show ?case by simp
next
  case (Cons x xs)
  then show ?case by auto
qed

lemma fold_key_index_sound:
  assumes "fold (\<lambda>(index, item) m. m(key item \<mapsto> index)) (enumerate n xs) m0 k = Some i"
  shows "m0 k = Some i \<or> (n \<le> i \<and> i < n + length xs \<and> key (xs ! (i - n)) = k)"
  using assms
proof (induction xs arbitrary: n m0)
  case Nil
  then show ?case by simp
next
  case (Cons x xs)
  from Cons.prems have "fold (\<lambda>(index, item) m. m(key item \<mapsto> index))
      (enumerate (Suc n) xs) (m0(key x \<mapsto> n)) k = Some i"
    by (simp only: enumerate_simps fold_simps prod.case)
  from Cons.IH [OF this]
  consider "(m0(key x \<mapsto> n)) k = Some i"
    | "Suc n \<le> i" "i < Suc n + length xs" "key (xs ! (i - Suc n)) = k"
    by blast
  then show ?case
  proof cases
    case 1
    then show ?thesis by (auto split: if_splits)
  next
    case 2
    then have "(x # xs) ! (i - n) = xs ! (i - Suc n)"
      by (simp add: nth_Cons')
    with 2 show ?thesis by simp
  qed
qed

lemma keyIndexMap_dom: "dom (keyIndexMap p) = key ` set (items p)"
  using fold_key_index_dom [where xs = "items p" and n = 0 and ?m0.0 = Map.empty] by (simp add: keyIndexMap_def)

lemma keyIndexMap_sound:
  "keyIndexMap p k = Some i \<Longrightarrow> i < length (items p) \<and> key (items p ! i) = k"
  using fold_key_index_sound [where xs = "items p" and n = 0 and ?m0.0 = Map.empty and k = k and i = i] by (simp add: keyIndexMap_def)

subsection \<open>Scrolling to an index, debounced\<close>

text \<open>
  Claim C2. For a positive item size and a non-negative top padding, whatever the
  element's scroll offset and height, the debounced \<^verbatim>\<open>scrollToIndex\<close> with
  \<open>targetTop = index * itemSize + paddingTop\<close>
  (a) calls the element's \<^verbatim>\<open>scrollTo\<close> once, with top \<open>targetTop\<close>, when \<open>targetTop\<close> is
  at most the element's scroll offset;
  (b) calls nothing and leaves the element as it is when \<open>targetTop\<close> is greater than
  the scroll offset and \<open>targetTop + itemSize\<close> is at most the scroll offset plus the
  element's height;
  (c) otherwise calls \<^verbatim>\<open>scrollTo\<close> once, with top \<open>targetTop + itemSize - height\<close>.
  A \<^verbatim>\<open>scrollTo\<close> call that gives an index and no \<^verbatim>\<open>debounce\<close> is debounced.
\<close>

theorem debounced_scrollToIndex:
  assumes "0 < itemSize p" and "0 \<le> paddingTop p"
  shows "(index * itemSize p + paddingTop p \<le> el_scrollTop el \<longrightarrow>
            scrollToIndex p index behavior True el
            = el\<lparr>scrollToCalls := scrollToCalls el @
                 [\<lparr>to_left = Some 0, to_top = Some (index * itemSize p + paddingTop p),
                   to_behavior = behavior\<rparr>]\<rparr>)
       \<and> (index * itemSize p + paddingTop p > el_scrollTop el
          \<and> index * itemSize p + paddingTop p + itemSize p \<le> el_scrollTop el + offsetHeight el \<longrightarrow>
            scrollToIndex p index behavior True el = el)
       \<and> (index * itemSize p + paddingTop p > el_scrollTop el
          \<and> \<not> index * itemSize p + paddingTop p + itemSize p \<le> el_scrollTop el + offsetHeight el \<longrightarrow>
            scrollToIndex p index behavior True el
            = el\<lparr>scrollToCalls := scrollToCalls el @
                 [\<lparr>to_left = Some 0,
                   to_top = Some (index * itemSize p + paddingTop p + itemSize p - offsetHeight el),
                   to_behavior = behavior\<rparr>]\<rparr>)
       \<and> scrollTo p (no_options\<lparr>o_index := Some index, o_behavior := behavior\<rparr>) el
          = scrollToIndex p index behavior True el"
  by (simp add: scrollToIndex_def scrollTo_def no_options_def el_scrollTo_def Let_def)

text \<open>
  The three cases at items of size 20 in an element of height 200: index 50 at offset 0
  scrolls to \<open>50 * 20 + 20 - 200 = 820\<close>; index 5 at offset 0 is in view and nothing is
  called; index 5 at offset 300 scrolls to 100.
\<close>

theorem debounced_scrollToIndex_witness:
  "scrollToIndex (default_props (replicate 100 \<lparr>key = 0::nat\<rparr>) 20) 50 None True
      \<lparr>el_scrollTop = 0, offsetHeight = 200, scrollToCalls = []\<rparr>
     = \<lparr>el_scrollTop = 0, offsetHeight = 200,
        scrollToCalls = [\<lparr>to_left = Some 0, to_top = Some 820, to_behavior = None\<rparr>]\<rparr>
   \<and> scrollToIndex (default_props (replicate 100 \<lparr>key = 0::nat\<rparr>) 20) 5 None True
      \<lparr>el_scrollTop = 0, offsetHeight = 200, scrollToCalls = []\<rparr>
     = \<lparr>el_scrollTop = 0, offsetHeight = 200, scrollToCalls = []\<rparr>
   \<and> scrollToIndex (default_props (replicate 100 \<lparr>key = 0::nat\<rparr>) 20) 5 None True
      \<lparr>el_scrollTop = 300, offsetHeight = 200, scrollToCalls = []\<rparr>
     = \<lparr>el_scrollTop = 300, offsetHeight = 200,
        scrollToCalls = [\<lparr>to_left = Some 0, to_top = Some 100, to_behavior = None\<rparr>]\<rparr>"
  using debounced_scrollToIndex [where p = "default_props (replicate 100 \<lparr>key = 0::nat\<rparr>) 20"
      and index = 50 and behavior = None
      and el = "\<lparr>el_scrollTop = 0, offsetHeight = 200, scrollToCalls = []\<rparr>"]
    debounced_scrollToIndex [where p = "default_props (replicate 100 \<lparr>key = 0::nat\<rparr>) 20"
      and index = 5 and behavior = None
      and el = "\<lparr>el_scrollTop = 0, offsetHeight = 200, scrollToCalls = []\<rparr>"]
    debounced_scrollToIndex [where p = "default_props (replicate 100 \<lparr>key = 0::nat\<rparr>) 20"
      and index = 5 and behavior = None
      and el = "\<lparr>el_scrollTop = 300, offsetHeight = 200, scrollToCalls = []\<rparr>"]
  by (simp add: default_props_def)

subsection \<open>Scrolling to a key\<close>

text \<open>
  Claim C6. If the key index maps the key \<open>k\<close> to the index \<open>i\<close>, a \<^verbatim>\<open>scrollTo\<close> call with
  the key \<open>k\<close>, a behavior and a debounce does what the call with the index \<open>i\<close>, the
  same behavior and the same debounce does. If the key index has no entry for \<open>k\<close>, the
  call calls nothing and leaves the element, and with it its scroll offset, as it is.
  The key index has an entry for exactly the keys of the items, and an entry leads to
  an item with that key.
\<close>

theorem scrollTo_key:
  "(keyIndexMap p k = Some i \<longrightarrow>
      scrollTo p (no_options\<lparr>o_key := Some k, o_behavior := behavior, o_debounce := debounce\<rparr>) el
      = scrollTo p (no_options\<lparr>o_index := Some (real i), o_behavior := behavior,
                                o_debounce := debounce\<rparr>) el)
   \<and> (keyIndexMap p k = None \<longrightarrow>
      scrollTo p (no_options\<lparr>o_key := Some k, o_behavior := behavior, o_debounce := debounce\<rparr>) el
      = el)
   \<and> (keyIndexMap p k = None \<longleftrightarrow> k \<notin> key ` set (items p))
   \<and> (keyIndexMap p k = Some i \<longrightarrow> i < length (items p) \<and> key (items p ! i) = k)"
proof (intro conjI impI)
  show "keyIndexMap p k = None \<longleftrightarrow> k \<notin> key ` set (items p)"
    by (metis domIff keyIndexMap_dom)
  show "i < length (items p)" "key (items p ! i) = k" if "keyIndexMap p k = Some i"
    using keyIndexMap_sound [OF that] by simp_all
qed (simp_all add: scrollTo_def no_options_def)

text \<open>
  The same at items with the keys 10, 20 and 30 of size 20: the key 30 is at index 2 and
  the call, not debounced, scrolls to 40; there is no key 40 and nothing is called.
\<close>

theorem scrollTo_key_witness:
  "keyIndexMap (default_props [\<lparr>key = 10::nat\<rparr>, \<lparr>key = 20\<rparr>, \<lparr>key = 30\<rparr>] 20) 30 = Some 2
   \<and> scrollTo (default_props [\<lparr>key = 10::nat\<rparr>, \<lparr>key = 20\<rparr>, \<lparr>key = 30\<rparr>] 20)
        (no_options\<lparr>o_key := Some 30, o_behavior := Some Smooth, o_debounce := Some False\<rparr>)
        \<lparr>el_scrollTop = 0, offsetHeight = 40, scrollToCalls = []\<rparr>
      = \<lparr>el_scrollTop = 0, offsetHeight = 40,
         scrollToCalls = [\<lparr>to_left = Some 0, to_top = Some 40, to_behavior = Some Smooth\<rparr>]\<rparr>
   \<and> keyIndexMap (default_props [\<lparr>key = 10::nat\<rparr>, \<lparr>key = 20\<rparr>, \<lparr>key = 30\<rparr>] 20) 40 = None
   \<and> scrollTo (default_props [\<lparr>key = 10::nat\<rparr>, \<lparr>key = 20\<rparr>, \<lparr>key = 30\<rparr>] 20)
        (no_options\<lparr>o_key := Some 40, o_behavior := Some Smooth, o_debounce := Some False\<rparr>)
        \<lparr>el_scrollTop = 0, offsetHeight = 40, scrollToCalls = []\<rparr>
      = \<lparr>el_scrollTop = 0, offsetHeight = 40, scrollToCalls = []\<rparr>"
  using scrollTo_key [where p = "default_props [\<lparr>key = 10::nat\<rparr>, \<lparr>key = 20\<rparr>, \<lparr>key = 30\<rparr>] 20"
      and k = 30 and i = 2 and behavior = "Some Smooth" and debounce = "Some False"
      and el = "\<lparr>el_scrollTop = 0, offsetHeight = 40, scrollToCalls = []\<rparr>"]
    scrollTo_key [where p = "default_props [\<lparr>key = 10::nat\<rparr>, \<lparr>key = 20\<rparr>, \<lparr>key = 30\<rparr>] 20"
      and k = 40 and i = 0 and behavior = "Some Smooth" and debounce = "Some False"
      and el = "\<lparr>el_scrollTop = 0, offsetHeight = 40, scrollToCalls = []\<rparr>"]
  by (simp add: default_props_def keyIndexMap_def scrollTo_def scrollToIndex_def no_options_def
      el_scrollTo_def)

subsection \<open>Several navigation options at once\<close>

text \<open>
  Claim C7. A \<^verbatim>\<open>scrollTo\<close> call honours the first of its navigation options in the
  order pixel position (\<^verbatim>\<open>left\<close>/\<^verbatim>\<open>top\<close>), index, key, named edge position, and
  ignores the others: it does what the same call does with that option alone. With a
  \<^verbatim>\<open>left\<close> or a \<^verbatim>\<open>top\<close> it makes the one call of the element's \<^verbatim>\<open>scrollTo\<close> with
  them. Without them and with an index it scrolls to that index: on a call that is not
  debounced, to the top \<open>index * itemSize + paddingTop\<close>. Without these and with a key
  it scrolls to the index of the key, and calls nothing for a key without one. With a
  position only, \<^verbatim>\<open>'bottom'\<close> calls with the top \<^verbatim>\<open>Number.MAX_SAFE_INTEGER\<close>,
  \<^verbatim>\<open>'top'\<close> with the top 0, and anything else calls nothing. Whatever the combination,
  the call returns, having called the element's \<^verbatim>\<open>scrollTo\<close> once at most.
\<close>

theorem scrollTo_precedence:
  "scrollTo p options el = scrollTo p (spec_honoured options) el
   \<and> (o_left options \<noteq> None \<or> o_top options \<noteq> None \<longrightarrow>
        scrollTo p options el
        = el\<lparr>scrollToCalls := scrollToCalls el @
             [\<lparr>to_left = o_left options, to_top = o_top options,
               to_behavior = o_behavior options\<rparr>]\<rparr>)
   \<and> (o_left options = None \<and> o_top options = None \<and> o_index options = Some i \<longrightarrow>
        scrollTo p options el
        = scrollToIndex p i (o_behavior options)
            (case o_debounce options of None \<Rightarrow> True | Some d \<Rightarrow> d) el)
   \<and> (o_left options = None \<and> o_top options = None \<and> o_index options = None
        \<and> o_key options = Some k \<longrightarrow>
        scrollTo p options el
        = (case keyIndexMap p k of
             None \<Rightarrow> el
           | Some j \<Rightarrow>
               scrollToIndex p (real j) (o_behavior options)
                 (case o_debounce options of None \<Rightarrow> True | Some d \<Rightarrow> d) el))
   \<and> (o_left options = None \<and> o_top options = None \<and> o_index options = None
        \<and> o_key options = None \<and> o_position options = Some ''bottom'' \<longrightarrow>
        scrollTo p options el
        = el\<lparr>scrollToCalls := scrollToCalls el @
             [\<lparr>to_left = Some 0, to_top = Some 9007199254740991,
               to_behavior = o_behavior options\<rparr>]\<rparr>)
   \<and> (o_left options = None \<and> o_top options = None \<and> o_index options = None
        \<and> o_key options = None \<and> o_position options = Some ''top'' \<longrightarrow>
        scrollTo p options el
        = el\<lparr>scrollToCalls := scrollToCalls el @
             [\<lparr>to_left = Some 0, to_top = Some 0, to_behavior = o_behavior options\<rparr>]\<rparr>)
   \<and> (o_left options = None \<and> o_top options = None \<and> o_index options = None
        \<and> o_key options = None \<and> o_position options \<noteq> Some ''bottom''
        \<and> o_position options \<noteq> Some ''top'' \<longrightarrow>
        scrollTo p options el = el)
   \<and> scrollToIndex p i behavior False el
        = el\<lparr>scrollToCalls := scrollToCalls el @
             [\<lparr>to_left = Some 0, to_top = Some (i * itemSize p + paddingTop p),
               to_behavior = behavior\<rparr>]\<rparr>
   \<and> (\<exists>calls. length calls \<le> 1
        \<and> scrollTo p options el = el\<lparr>scrollToCalls := scrollToCalls el @ calls\<rparr>)"
proof (intro conjI impI)
  show "scrollTo p options el = scrollTo p (spec_honoured options) el"
    by (cases "o_left options"; cases "o_top options"; cases "o_index options";
        cases "o_key options")
       (simp_all add: scrollTo_def spec_honoured_def no_options_def Let_def)
next
  assume "o_left options \<noteq> None \<or> o_top options \<noteq> None"
  then show "scrollTo p options el
        = el\<lparr>scrollToCalls := scrollToCalls el @
             [\<lparr>to_left = o_left options, to_top = o_top options,
               to_behavior = o_behavior options\<rparr>]\<rparr>"
    by (simp add: scrollTo_def scrollToPosition_def el_scrollTo_def Let_def)
next
  assume "o_left options = None \<and> o_top options = None \<and> o_index options = Some i"
  then show "scrollTo p options el
        = scrollToIndex p i (o_behavior options)
            (case o_debounce options of None \<Rightarrow> True | Some d \<Rightarrow> d) el"
    by (simp add: scrollTo_def Let_def)
next
  assume "o_left options = None \<and> o_top options = None \<and> o_index options = None
        \<and> o_key options = Some k"
  then show "scrollTo p options el
        = (case keyIndexMap p k of
             None \<Rightarrow> el
           | Some j \<Rightarrow>
               scrollToIndex p (real j) (o_behavior options)
                 (case o_debounce options of None \<Rightarrow> True | Some d \<Rightarrow> d) el)"
    by (simp add: scrollTo_def Let_def split: option.split)
next
  assume "o_left options = None \<and> o_top options = None \<and> o_index options = None
        \<and> o_key options = None \<and> o_position options = Some ''bottom''"
  then show "scrollTo p options el
        = el\<lparr>scrollToCalls := scrollToCalls el @
             [\<lparr>to_left = Some 0, to_top = Some 9007199254740991,
               to_behavior = o_behavior options\<rparr>]\<rparr>"
    by (simp add: scrollTo_def scrollToPosition_def el_scrollTo_def MAX_SAFE_INTEGER_def Let_def)
next
  assume "o_left options = None \<and> o_top options = None \<and> o_index options = None
        \<and> o_key options = None \<and> o_position options = Some ''top''"
  then show "scrollTo p options el
        = el\<lparr>scrollToCalls := scrollToCalls el @
             [\<lparr>to_left = Some 0, to_top = Some 0, to_behavior = o_behavior options\<rparr>]\<rparr>"
    by (simp add: scrollTo_def scrollToPosition_def el_scrollTo_def Let_def)
next
  assume "o_left options = None \<and> o_top options = None \<and> o_index options = None
        \<and> o_key options = None \<and> o_position options \<noteq> Some ''bottom''
        \<and> o_position options \<noteq> Some ''top''"
  then show "scrollTo p options el = el"
    by (simp add: scrollTo_def Let_def)
next
  show "scrollToIndex p i behavior False el
        = el\<lparr>scrollToCalls := scrollToCalls el @
             [\<lparr>to_left = Some 0, to_top = Some (i * itemSize p + paddingTop p),
               to_behavior = behavior\<rparr>]\<rparr>"
    by (simp add: scrollToIndex_def el_scrollTo_def Let_def)
next
  have one: "\<exists>calls. length calls \<le> 1
        \<and> scrollToIndex p i b d el = el\<lparr>scrollToCalls := scrollToCalls el @ calls\<rparr>" for i b d
  proof (cases "scrollToIndex p i b d el = el")
    case True
    then show ?thesis by (intro exI [of _ "[]"]) simp
  next
    case False
    then obtain c where "scrollToIndex p i b d el = el_scrollTo c el"
      by (auto simp: scrollToIndex_def Let_def split: if_splits)
    then show ?thesis by (intro exI [of _ "[c]"]) (simp add: el_scrollTo_def)
  qed
  have pos: "\<exists>calls. length calls \<le> 1
        \<and> scrollToPosition l t b el = el\<lparr>scrollToCalls := scrollToCalls el @ calls\<rparr>" for l t b
    by (intro exI [of _ "[\<lparr>to_left = l, to_top = t, to_behavior = b\<rparr>]"])
       (simp add: scrollToPosition_def el_scrollTo_def)
  have none: "\<exists>calls. length calls \<le> 1 \<and> el = el\<lparr>scrollToCalls := scrollToCalls el @ calls\<rparr>"
    by (intro exI [of _ "[]"]) simp
  show "\<exists>calls. length calls \<le> 1
        \<and> scrollTo p options el = el\<lparr>scrollToCalls := scrollToCalls el @ calls\<rparr>"
    unfolding scrollTo_def Let_def using one pos none
    by (simp split: option.splits)
qed

text \<open>
  Contradictory combinations on items with the keys 10, 20 and 30 of size 20, in an
  element of height 40 at offset 0, none debounced: with a top, an index, a key and a
  position the call is the one of the pixel position; with an index, a key and a
  position it scrolls to the index 1, at top 20; with a key and a position it scrolls
  to the key 30, at index 2 and top 40; with a key that no item has and a position it
  calls nothing; with the position \<^verbatim>\<open>'bottom'\<close> alone it calls with the largest safe
  integer, and with \<^verbatim>\<open>'top'\<close> alone, debounced or not, with 0.
\<close>

theorem scrollTo_precedence_witness:
  "scrollTo (default_props [\<lparr>key = 10::nat\<rparr>, \<lparr>key = 20\<rparr>, \<lparr>key = 30\<rparr>] 20)
     \<lparr>o_left = None, o_top = Some 5, o_index = Some 1, o_key = Some 30,
      o_position = Some ''bottom'', o_behavior = Some Smooth, o_debounce = Some False\<rparr>
     \<lparr>el_scrollTop = 0, offsetHeight = 40, scrollToCalls = []\<rparr>
   = \<lparr>el_scrollTop = 0, offsetHeight = 40,
      scrollToCalls = [\<lparr>to_left = None, to_top = Some 5, to_behavior = Some Smooth\<rparr>]\<rparr>
   \<and> scrollTo (default_props [\<lparr>key = 10::nat\<rparr>, \<lparr>key = 20\<rparr>, \<lparr>key = 30\<rparr>] 20)
     \<lparr>o_left = None, o_top = None, o_index = Some 1, o_key = Some 30,
      o_position = Some ''bottom'', o_behavior = Some Smooth, o_debounce = Some False\<rparr>
     \<lparr>el_scrollTop = 0, offsetHeight = 40, scrollToCalls = []\<rparr>
   = \<lparr>el_scrollTop = 0, offsetHeight = 40,
      scrollToCalls = [\<lparr>to_left = Some 0, to_top = Some 20, to_behavior = Some Smooth\<rparr>]\<rparr>
   \<and> scrollTo (default_props [\<lparr>key = 10::nat\<rparr>, \<lparr>key = 20\<rparr>, \<lparr>key = 30\<rparr>] 20)
     \<lparr>o_left = None, o_top = None, o_index = None, o_key = Some 30,
      o_position = Some ''bottom'', o_behavior = Some Smooth, o_debounce = Some False\<rparr>
     \<lparr>el_scrollTop = 0, offsetHeight = 40, scrollToCalls = []\<rparr>
   = \<lparr>el_scrollTop = 0, offsetHeight = 40,
      scrollToCalls = [\<lparr>to_left = Some 0, to_top = Some 40, to_behavior = Some Smooth\<rparr>]\<rparr>
   \<and> scrollTo (default_props [\<lparr>key = 10::nat\<rparr>, \<lparr>key = 20\<rparr>, \<lparr>key = 30\<rparr>] 20)
     \<lparr>o_left = None, o_top = None, o_index = None, o_key = Some 40,
      o_position = Some ''bottom'', o_behavior = Some Smooth, o_debounce = Some False\<rparr>
     \<lparr>el_scrollTop = 0, offsetHeight = 40, scrollToCalls = []\<rparr>
   = \<lparr>el_scrollTop = 0, offsetHeight = 40, scrollToCalls = []\<rparr>
   \<and> scrollTo (default_props [\<lparr>key = 10::nat\<rparr>, \<lparr>key = 20\<rparr>, \<lparr>key = 30\<rparr>] 20)
     \<lparr>o_left = None, o_top = None, o_index = None, o_key = None,
      o_position = Some ''bottom'', o_behavior = Some Smooth, o_debounce = Some False\<rparr>
     \<lparr>el_scrollTop = 0, offsetHeight = 40, scrollToCalls = []\<rparr>
   = \<lparr>el_scrollTop = 0, offsetHeight = 40,
      scrollToCalls =
        [\<lparr>to_left = Some 0, to_top = Some 9007199254740991, to_behavior = Some Smooth\<rparr>]\<rparr>
   \<and> scrollTo (default_props [\<lparr>key = 10::nat\<rparr>, \<lparr>key = 20\<rparr>, \<lparr>key = 30\<rparr>] 20)
     \<lparr>o_left = None, o_top = None, o_index = None, o_key = None,
      o_position = Some ''top'', o_behavior = None, o_debounce = None\<rparr>
     \<lparr>el_scrollTop = 0, offsetHeight = 40, scrollToCalls = []\<rparr>
   = \<lparr>el_scrollTop = 0, offsetHeight = 40,
      scrollToCalls = [\<lparr>to_left = Some 0, to_top = Some 0, to_behavior = None\<rparr>]\<rparr>"
proof -
  let ?p = "default_props [\<lparr>key = 10::nat\<rparr>, \<lparr>key = 20\<rparr>, \<lparr>key = 30\<rparr>] 20"
  let ?el = "\<lparr>el_scrollTop = 0, offsetHeight = 40, scrollToCalls = []\<rparr>"
  have index: "keyIndexMap ?p 30 = Some 2" "keyIndexMap ?p 40 = None"
    by (simp_all add: keyIndexMap_def default_props_def)
  have size: "itemSize ?p = 20" "paddingTop ?p = 0"
    by (simp_all add: default_props_def)
  note branches = scrollTo_precedence [where p = ?p and el = ?el]
  have pixel: "scrollTo ?p \<lparr>o_left = None, o_top = Some 5, o_index = Some 1,
          o_key = Some 30, o_position = Some ''bottom'', o_behavior = Some Smooth,
          o_debounce = Some False\<rparr> ?el
      = \<lparr>el_scrollTop = 0, offsetHeight = 40,
         scrollToCalls = [\<lparr>to_left = None, to_top = Some 5, to_behavior = Some Smooth\<rparr>]\<rparr>"
    using branches [where options = "\<lparr>o_left = None, o_top = Some 5, o_index = Some 1,
          o_key = Some 30, o_position = Some ''bottom'', o_behavior = Some Smooth,
          o_debounce = Some False\<rparr>", THEN conjunct2]
    by simp
  have by_index: "scrollTo ?p \<lparr>o_left = None, o_top = None, o_index = Some 1,
          o_key = Some 30, o_position = Some ''bottom'', o_behavior = Some Smooth,
          o_debounce = Some False\<rparr> ?el
      = \<lparr>el_scrollTop = 0, offsetHeight = 40,
         scrollToCalls = [\<lparr>to_left = Some 0, to_top = Some 20, to_behavior = Some Smooth\<rparr>]\<rparr>"
    using branches [where options = "\<lparr>o_left = None, o_top = None, o_index = Some 1,
          o_key = Some 30, o_position = Some ''bottom'', o_behavior = Some Smooth,
          o_debounce = Some False\<rparr>" and i = 1 and behavior = "Some Smooth", THEN conjunct2]
    by (simp add: size)
  have by_key: "scrollTo ?p \<lparr>o_left = None, o_top = None, o_index = None,
          o_key = Some 30, o_position = Some ''bottom'', o_behavior = Some Smooth,
          o_debounce = Some False\<rparr> ?el
      = \<lparr>el_scrollTop = 0, offsetHeight = 40,
         scrollToCalls = [\<lparr>to_left = Some 0, to_top = Some 40, to_behavior = Some Smooth\<rparr>]\<rparr>"
    using branches [where options = "\<lparr>o_left = None, o_top = None, o_index = None,
          o_key = Some 30, o_position = Some ''bottom'', o_behavior = Some Smooth,
          o_debounce = Some False\<rparr>" and k = 30 and i = 2 and behavior = "Some Smooth", THEN conjunct2]
    by (simp add: index size)
  have no_key: "scrollTo ?p \<lparr>o_left = None, o_top = None, o_index = None,
          o_key = Some 40, o_position = Some ''bottom'', o_behavior = Some Smooth,
          o_debounce = Some False\<rparr> ?el = ?el"
    using branches [where options = "\<lparr>o_left = None, o_top = None, o_index = None,
          o_key = Some 40, o_position = Some ''bottom'', o_behavior = Some Smooth,
          o_debounce = Some False\<rparr>" and k = 40, THEN conjunct2]
    by (simp add: index)
  have bottom: "scrollTo ?p \<lparr>o_left = None, o_top = None, o_index = None,
          o_key = None, o_position = Some ''bottom'', o_behavior = Some Smooth,
          o_debounce = Some False\<rparr> ?el
      = \<lparr>el_scrollTop = 0, offsetHeight = 40,
         scrollToCalls =
           [\<lparr>to_left = Some 0, to_top = Some 9007199254740991, to_behavior = Some Smooth\<rparr>]\<rparr>"
    using branches [where options = "\<lparr>o_left = None, o_top = None, o_index = None,
          o_key = None, o_position = Some ''bottom'', o_behavior = Some Smooth,
          o_debounce = Some False\<rparr>", THEN conjunct2]
    by simp
  have top: "scrollTo ?p \<lparr>o_left = None, o_top = None, o_index = None,
          o_key = None, o_position = Some ''top'', o_behavior = None,
          o_debounce = None\<rparr> ?el
      = \<lparr>el_scrollTop = 0, offsetHeight = 40,
         scrollToCalls = [\<lparr>to_left = Some 0, to_top = Some 0, to_behavior = None\<rparr>]\<rparr>"
    using branches [where options = "\<lparr>o_left = None, o_top = None, o_index = None,
          o_key = None, o_position = Some ''top'', o_behavior = None,
          o_debounce = None\<rparr>", THEN conjunct2]
    by simp
  from pixel by_index by_key no_key bottom top show ?thesis by simp
qed

section \<open>Scroll events, resize reports and frames\<close>

subsection \<open>The guard holds in every state the host can drive the component to\<close>

lemma frame_guard_setup: "frame_guard (setup_component el)"
  by (simp add: frame_guard_def setup_component_def)

lemma frame_guard_handleListScroll:
  "frame_guard s \<Longrightarrow> frame_guard (handleListScroll p e s)"
  by (simp add: frame_guard_def handleListScroll_def nextFrame_def notify_def Let_def
      split: option.split)

lemma frame_guard_handleListResize:
  "frame_guard s \<Longrightarrow> frame_guard (handleListResize p h s)"
  by (simp add: frame_guard_def handleListResize_def notify_def Let_def split: option.split)

lemma frame_guard_run_frame: "frame_guard s \<Longrightarrow> frame_guard (run_frame s)"
  by (simp add: frame_guard_def run_frame_def syncViewport_def split: if_splits)

lemma frame_guard_step: "frame_guard s \<Longrightarrow> frame_guard (step p ev s)"
proof (cases ev)
  case (Scroll t)
  assume "frame_guard s"
  then have "frame_guard (s\<lparr>listRef := (listRef s)\<lparr>el_scrollTop := t\<rparr>\<rparr>)"
    by (simp add: frame_guard_def)
  then show ?thesis using Scroll by (simp add: frame_guard_handleListScroll)
next
  case (Resize h)
  assume "frame_guard s"
  then show ?thesis using Resize by (simp add: frame_guard_handleListResize)
next
  case Frame
  assume "frame_guard s"
  then show ?thesis using Frame by (simp add: frame_guard_run_frame)
next
  case (CallScrollTo options)
  assume "frame_guard s"
  then show ?thesis using CallScrollTo by (simp add: frame_guard_def)
qed

lemma frame_guard_run: "frame_guard s \<Longrightarrow> frame_guard (run p evs s)"
  unfolding run_def
  by (induction evs arbitrary: s) (simp_all add: frame_guard_step)

subsection \<open>One pending recomputation at most\<close>

text \<open>
  Claim C10. After any sequence of scroll events, resize reports, frames and
  \<^verbatim>\<open>scrollTo\<close> calls, one \<^verbatim>\<open>syncViewport\<close> at most is pending, and one is pending exactly
  when \<^verbatim>\<open>rafFlag\<close> is set. \<^verbatim>\<open>handleListScroll\<close> hands \<^verbatim>\<open>syncViewport\<close> to
  \<^verbatim>\<open>nextFrame\<close> only when the flag is not set and leaves the flag set; \<^verbatim>\<open>syncViewport\<close>
  clears the flag, and after a frame the flag is clear and nothing is pending; neither a
  resize report nor a \<^verbatim>\<open>scrollTo\<close> call touches the flag or the pending callbacks.
\<close>

theorem one_pending_frame:
  "length (pendingFrames (run p evs (setup_component el))) \<le> 1
   \<and> (rafFlag (run p evs (setup_component el))
        \<longleftrightarrow> pendingFrames (run p evs (setup_component el)) = [SyncViewport])
   \<and> (\<not> rafFlag (run p evs (setup_component el))
        \<longleftrightarrow> pendingFrames (run p evs (setup_component el)) = [])
   \<and> \<not> rafFlag (step p Frame (run p evs (setup_component el)))
   \<and> pendingFrames (step p Frame (run p evs (setup_component el))) = []
   \<and> pendingFrames (handleListScroll p e s)
        = (if rafFlag s then pendingFrames s else pendingFrames s @ [SyncViewport])
   \<and> rafFlag (handleListScroll p e s)
   \<and> \<not> rafFlag (syncViewport s)
   \<and> rafFlag (handleListResize p h s) = rafFlag s
   \<and> pendingFrames (handleListResize p h s) = pendingFrames s
   \<and> rafFlag (step p (CallScrollTo options) s) = rafFlag s
   \<and> pendingFrames (step p (CallScrollTo options) s) = pendingFrames s"
proof -
  have reachable: "frame_guard (run p evs (setup_component el))"
    by (rule frame_guard_run [OF frame_guard_setup])
  then have "length (pendingFrames (run p evs (setup_component el))) \<le> 1
   \<and> (rafFlag (run p evs (setup_component el))
        \<longleftrightarrow> pendingFrames (run p evs (setup_component el)) = [SyncViewport])
   \<and> (\<not> rafFlag (run p evs (setup_component el))
        \<longleftrightarrow> pendingFrames (run p evs (setup_component el)) = [])"
    by (simp add: frame_guard_def split: if_splits)
  moreover have "\<not> rafFlag (step p Frame (run p evs (setup_component el)))"
    "pendingFrames (step p Frame (run p evs (setup_component el))) = []"
    using reachable
    by (simp_all add: frame_guard_def run_frame_def syncViewport_def split: if_splits)
  moreover have "pendingFrames (handleListScroll p e s)
        = (if rafFlag s then pendingFrames s else pendingFrames s @ [SyncViewport])"
    "rafFlag (handleListScroll p e s)"
    by (simp_all add: handleListScroll_def nextFrame_def notify_def Let_def split: option.split)
  moreover have "\<not> rafFlag (syncViewport s)" by (simp add: syncViewport_def)
  moreover have "rafFlag (handleListResize p h s) = rafFlag s"
    "pendingFrames (handleListResize p h s) = pendingFrames s"
    by (simp_all add: handleListResize_def notify_def Let_def split: option.split)
  moreover have "rafFlag (step p (CallScrollTo options) s) = rafFlag s"
    "pendingFrames (step p (CallScrollTo options) s) = pendingFrames s"
    by simp_all
  ultimately show ?thesis by blast
qed

text \<open>
  Three scroll events in a row leave one \<^verbatim>\<open>syncViewport\<close> pending; two scroll events and
  a frame leave none, and \<^verbatim>\<open>scrollTop\<close> at the last offset.
\<close>

theorem one_pending_frame_witness:
  "pendingFrames (run (default_props [\<lparr>key = 1::nat\<rparr>] 10) [Scroll 5, Scroll 9, Scroll 12]
       (setup_component \<lparr>el_scrollTop = 0, offsetHeight = 40, scrollToCalls = []\<rparr>))
     = [SyncViewport]
   \<and> rafFlag (run (default_props [\<lparr>key = 1::nat\<rparr>] 10) [Scroll 5, Scroll 9, Scroll 12]
       (setup_component \<lparr>el_scrollTop = 0, offsetHeight = 40, scrollToCalls = []\<rparr>))
   \<and> pendingFrames (run (default_props [\<lparr>key = 1::nat\<rparr>] 10) [Scroll 5, Scroll 9, Frame]
       (setup_component \<lparr>el_scrollTop = 0, offsetHeight = 40, scrollToCalls = []\<rparr>))
     = []
   \<and> scrollTop (run (default_props [\<lparr>key = 1::nat\<rparr>] 10) [Scroll 5, Scroll 9, Frame]
       (setup_component \<lparr>el_scrollTop = 0, offsetHeight = 40, scrollToCalls = []\<rparr>))
     = 9"
  using one_pending_frame [where p = "default_props [\<lparr>key = 1::nat\<rparr>] 10"
      and evs = "[Scroll 5, Scroll 9, Scroll 12]"
      and el = "\<lparr>el_scrollTop = 0, offsetHeight = 40, scrollToCalls = []\<rparr>"]
  by (simp add: run_def setup_component_def default_props_def handleListScroll_def
      nextFrame_def run_frame_def syncViewport_def)

subsection \<open>What the observers see\<close>

text \<open>
  The claim C9 as it is written asks that \<^verbatim>\<open>onScroll\<close> runs after the state update for
  its scroll event. On the first scroll event, to offset 100, \<^verbatim>\<open>onScroll\<close> is called
  while \<^verbatim>\<open>scrollTop\<close> is still 0, and \<^verbatim>\<open>scrollTop\<close> is still 0 when
  \<^verbatim>\<open>handleListScroll\<close> returns: the update is the pending \<^verbatim>\<open>syncViewport\<close>.
\<close>

theorem onScroll_sees_stale_scrollTop:
  "observed (step ((default_props [\<lparr>key = 1::nat\<rparr>] 10)\<lparr>onScroll := Some (Observer ''log'')\<rparr>)
       (Scroll 100)
       (setup_component \<lparr>el_scrollTop = 0, offsetHeight = 40, scrollToCalls = []\<rparr>))
     = [OnScroll (Observer ''log'') 100
          \<lparr>v_listHeight = None, v_scrollTop = 0, v_rafFlag = True, v_el_scrollTop = 100\<rparr>]
   \<and> scrollTop (step ((default_props [\<lparr>key = 1::nat\<rparr>] 10)\<lparr>onScroll := Some (Observer ''log'')\<rparr>)
       (Scroll 100)
       (setup_component \<lparr>el_scrollTop = 0, offsetHeight = 40, scrollToCalls = []\<rparr>))
     \<noteq> el_scrollTop (listRef (step ((default_props [\<lparr>key = 1::nat\<rparr>] 10)\<lparr>onScroll := Some (Observer ''log'')\<rparr>)
       (Scroll 100)
       (setup_component \<lparr>el_scrollTop = 0, offsetHeight = 40, scrollToCalls = []\<rparr>)))"
  by (simp add: default_props_def setup_component_def handleListScroll_def nextFrame_def
      notify_def view_of_def)

text \<open>
  Claim C9, as amended. On a resize report \<^verbatim>\<open>onResize\<close> is called after
  \<^verbatim>\<open>listHeight\<close> has been set to the reported height, and sees it. On a scroll event
  \<^verbatim>\<open>onScroll\<close> is called after the recomputation has been scheduled, and sees
  \<^verbatim>\<open>rafFlag\<close> set and the \<^verbatim>\<open>scrollTop\<close> from before the event, which
  \<^verbatim>\<open>handleListScroll\<close> does not change; \<^verbatim>\<open>scrollTop\<close> takes the element's offset when
  the scheduled \<^verbatim>\<open>syncViewport\<close> runs at the next frame.
\<close>

theorem observer_order:
  "(onResize p = Some ob \<longrightarrow>
      observed (step p (Resize h) s)
      = observed s @ [OnResize ob h
          \<lparr>v_listHeight = Some h, v_scrollTop = scrollTop s, v_rafFlag = rafFlag s,
            v_el_scrollTop = el_scrollTop (listRef s)\<rparr>])
   \<and> (onScroll p = Some ob \<longrightarrow>
      observed (step p (Scroll t) s)
      = observed s @ [OnScroll ob t
          \<lparr>v_listHeight = listHeight s, v_scrollTop = scrollTop s, v_rafFlag = True,
            v_el_scrollTop = t\<rparr>])
   \<and> scrollTop (step p (Scroll t) s) = scrollTop s
   \<and> scrollTop (step p Frame (step p (Scroll t) (run p evs (setup_component el)))) = t"
proof (intro conjI impI)
  show "observed (step p (Resize h) s)
      = observed s @ [OnResize ob h
          \<lparr>v_listHeight = Some h, v_scrollTop = scrollTop s, v_rafFlag = rafFlag s,
            v_el_scrollTop = el_scrollTop (listRef s)\<rparr>]" if "onResize p = Some ob"
    using that by (simp add: handleListResize_def notify_def view_of_def)
  show "observed (step p (Scroll t) s)
      = observed s @ [OnScroll ob t
          \<lparr>v_listHeight = listHeight s, v_scrollTop = scrollTop s, v_rafFlag = True,
            v_el_scrollTop = t\<rparr>]" if "onScroll p = Some ob"
    using that by (simp add: handleListScroll_def nextFrame_def notify_def view_of_def)
  show "scrollTop (step p (Scroll t) s) = scrollTop s"
    by (simp add: handleListScroll_def nextFrame_def notify_def Let_def split: option.split)
  let ?s = "run p evs (setup_component el)"
  have "frame_guard (step p (Scroll t) ?s)"
    by (intro frame_guard_step frame_guard_run frame_guard_setup)
  moreover have "rafFlag (step p (Scroll t) ?s)"
    by (simp add: handleListScroll_def nextFrame_def notify_def Let_def split: option.split)
  ultimately have "pendingFrames (step p (Scroll t) ?s) = [SyncViewport]"
    by (simp add: frame_guard_def)
  moreover have "el_scrollTop (listRef (step p (Scroll t) ?s)) = t"
    by (simp add: handleListScroll_def nextFrame_def notify_def Let_def split: option.split)
  ultimately show "scrollTop (step p Frame (step p (Scroll t) ?s)) = t"
    by (simp add: run_frame_def syncViewport_def)
qed

text \<open>The same at the first resize report, of height 40, and at the first scroll event.\<close>

theorem observer_order_witness:
  "observed (step ((default_props [\<lparr>key = 1::nat\<rparr>] 10)\<lparr>onResize := Some (Observer ''size'')\<rparr>)
       (Resize 40)
       (setup_component \<lparr>el_scrollTop = 0, offsetHeight = 40, scrollToCalls = []\<rparr>))
     = [OnResize (Observer ''size'') 40
          \<lparr>v_listHeight = Some 40, v_scrollTop = 0, v_rafFlag = False, v_el_scrollTop = 0\<rparr>]
   \<and> observed (step ((default_props [\<lparr>key = 1::nat\<rparr>] 10)\<lparr>onScroll := Some (Observer ''log'')\<rparr>)
       (Scroll 100)
       (setup_component \<lparr>el_scrollTop = 0, offsetHeight = 40, scrollToCalls = []\<rparr>))
     = [OnScroll (Observer ''log'') 100
          \<lparr>v_listHeight = None, v_scrollTop = 0, v_rafFlag = True, v_el_scrollTop = 100\<rparr>]"
  using observer_order [where p = "(default_props [\<lparr>key = 1::nat\<rparr>] 10)\<lparr>onResize := Some (Observer ''size'')\<rparr>"
      and ob = "Observer ''size''" and h = 40
      and s = "setup_component \<lparr>el_scrollTop = 0, offsetHeight = 40, scrollToCalls = []\<rparr>"]
    observer_order [where p = "(default_props [\<lparr>key = 1::nat\<rparr>] 10)\<lparr>onScroll := Some (Observer ''log'')\<rparr>"
      and ob = "Observer ''log''" and t = 100
      and s = "setup_component \<lparr>el_scrollTop = 0, offsetHeight = 40, scrollToCalls = []\<rparr>"]
  by (simp add: default_props_def setup_component_def)

end
